theory Spec2Isabelle
  imports Complex_Main
begin

section \<open>Scope\<close>

text \<open>
  The theory embeds the transformation pipeline of \<open>src/App.tsx\<close>: decoding the
  uploaded text (\<open>fallbackParse\<close>, \<open>onFileSelected\<close>), the filters and the row
  transformation (\<open>filteredRows\<close>, \<open>uniqueNames\<close>, \<open>transformedAll\<close>,
  \<open>transformedFiltered\<close>), the heuristic categories, the classifier loop
  (\<open>classifyWithOpenAI\<close>, \<open>handleClassify\<close>), and quoting and the downloaded text
  (\<open>csvEscape\<close>, \<open>handleDownload\<close>). React state is a record that is passed and
  returned; the requests of a classification run are answered by a function from the
  number of the request to what it comes to.

  The JavaScript built-ins are modelled as far as the program uses them:
  \<^item> strings are lists of 8-bit characters, the Latin-1 range of JavaScript's code units;
  \<^item> numbers are binary64 values held as the rationals they denote, with NaN and the
    infinities; a decimal literal is rounded to the nearest value, ties to even;
  \<^item> the category map is an object with its own properties and its prototype: reading
    a name follows the prototype chain, and writing the name \<open>__proto__\<close> goes through
    the setter of \<open>Object.prototype\<close>; a raw row is the list of its own properties in
    the order of \<open>Object.keys\<close>, read only under the fixed column names, none of which
    \<open>Object.prototype\<close> defines;
  \<^item> \<open>new Date\<close>, \<open>JSON.parse\<close>, the network and the PapaParse library (which is not
    among the sources) are parameters of the functions that use them.
\<close>

section \<open>JavaScript strings\<close>

text \<open>
  Strings are lists of 8-bit characters (the Latin-1 range of JavaScript's code units).
  \<open>is_ws\<close> is the white space that \<open>String.prototype.trim\<close> and the regular
  expression class \<open>\s\<close> remove in that range: TAB, LF, VT, FF, CR, SPACE and NBSP.
\<close>

definition is_ws :: "char \<Rightarrow> bool" where
  "is_ws c = (c \<in> set [CHR 0x09, CHR 0x0A, CHR 0x0B, CHR 0x0C, CHR 0x0D, CHR 0x20, CHR 0xA0])"

definition trim :: "string \<Rightarrow> string" where
  "trim s = rev (dropWhile is_ws (rev (dropWhile is_ws s)))"

definition is_digit :: "char \<Rightarrow> bool" where
  "is_digit c = (c \<in> set ''0123456789'')"

text \<open>
  \<open>toLowerCase\<close>: the letters A-Z and the Latin-1 capitals U+00C0..U+00DE (without the
  multiplication sign U+00D7) move up by 32; every other character stays.
\<close>

definition lower_char :: "char \<Rightarrow> char" where
  "lower_char c =
     (let n = of_char c :: nat
      in if (65 \<le> n \<and> n \<le> 90) \<or> (192 \<le> n \<and> n \<le> 222 \<and> n \<noteq> 215)
         then char_of (n + 32) else c)"

definition toLowerCase :: "string \<Rightarrow> string" where
  "toLowerCase s = map lower_char s"

text \<open>
  \<open>toUpperCase\<close>: a-z and U+00E0..U+00FE (without the division sign U+00F7) move down
  by 32, and the sharp s U+00DF becomes the two letters SS. The upper-case forms of
  U+00B5 and U+00FF lie outside Latin-1 and are no ASCII letters; the model leaves these
  two characters as they are, which no comparison with an ASCII word can tell apart.
\<close>

definition upper_char :: "char \<Rightarrow> string" where
  "upper_char c =
     (let n = of_char c :: nat
      in if (97 \<le> n \<and> n \<le> 122) \<or> (224 \<le> n \<and> n \<le> 254 \<and> n \<noteq> 247)
         then [char_of (n - 32)]
         else if n = 223 then ''SS'' else [c])"

definition toUpperCase :: "string \<Rightarrow> string" where
  "toUpperCase s = concat (map upper_char s)"

text \<open>\<open>s.startsWith(k)\<close> and \<open>s.includes(k)\<close>.\<close>

fun startsWith :: "string \<Rightarrow> string \<Rightarrow> bool" where
  "startsWith s [] = True"
| "startsWith [] (k # ks) = False"
| "startsWith (c # cs) (k # ks) = (c = k \<and> startsWith cs ks)"

fun includes_str :: "string \<Rightarrow> string \<Rightarrow> bool" where
  "includes_str [] k = (k = [])"
| "includes_str (c # cs) k = (startsWith (c # cs) k \<or> includes_str cs k)"

text \<open>\<open>xs.join(sep)\<close> on a list of strings.\<close>

fun join :: "string \<Rightarrow> string list \<Rightarrow> string" where
  "join sep [] = []"
| "join sep [x] = x"
| "join sep (x # y # ys) = x @ sep @ join sep (y # ys)"

text \<open>\<open>s.split(",")\<close>: the pieces between the commas; never an empty list.\<close>

fun split_on :: "char \<Rightarrow> string \<Rightarrow> string list" where
  "split_on d [] = [[]]"
| "split_on d (c # cs) =
     (if c = d then [] # split_on d cs
      else (case split_on d cs of [] \<Rightarrow> [[c]] | p # ps \<Rightarrow> (c # p) # ps))"

text \<open>
  \<open>s.split(/\r?\n/)\<close>: a line ends at LF, and a CR right before that LF belongs to the
  separator.
\<close>

fun split_lines :: "string \<Rightarrow> string list" where
  "split_lines [] = [[]]"
| "split_lines (c # cs) =
     (if c = CHR 0x0A then [] # split_lines cs
      else if c = CHR 0x0D \<and> (case cs of [] \<Rightarrow> False | c' # _ \<Rightarrow> c' = CHR 0x0A)
           then [] # split_lines (tl cs)
      else (case split_lines cs of [] \<Rightarrow> [[c]] | p # ps \<Rightarrow> (c # p) # ps))"

section \<open>The category taxonomy and the heuristic rules\<close>

definition siteNameDefault :: string where
  "siteNameDefault = ''Revolut CSV Transformer''"


text \<open>
  \<open>heuristicCategory\<close>: the name in lower case is tested against the keywords line by
  line, and the first line with a keyword that occurs in it gives the category.
\<close>

definition heuristicCategory :: "string \<Rightarrow> string" where
  "heuristicCategory name =
     (let s = toLowerCase name; has = includes_str s
      in if has ''salary'' \<or> has ''stipend'' \<or> has ''payroll'' \<or> has ''bonifico in entrata''
           then ''Income''
         else if has ''atm'' \<or> has ''cash withdrawal'' \<or> has ''prelievo''
           then ''Cash Withdrawal''
         else if has ''transfer'' \<or> has ''bonifico'' \<or> has ''internal transfer''
                 \<or> has ''worldpay''
           then ''Transfers''
         else if has ''amazon'' \<or> has ''zalando'' \<or> has ''decathlon'' \<or> has ''ikea''
           then ''Shopping''
         else if has ''conad'' \<or> has ''coop'' \<or> has ''lidl'' \<or> has ''eurospin''
                 \<or> has ''supermerc''
           then ''Groceries''
         else if has ''bar '' \<or> has ''caffe'' \<or> has ''ristor'' \<or> has ''trattoria''
                 \<or> has ''locanda'' \<or> has ''osteria'' \<or> has ''pizza'' \<or> has ''mcd''
                 \<or> has ''burger'' \<or> has ''kebab''
           then ''Restaurants''
         else if has ''trenitalia'' \<or> has ''italo'' \<or> has ''uber'' \<or> has ''taxi''
                 \<or> has ''flixbus'' \<or> has ''ryanair'' \<or> has ''wizz''
           then ''Transport''
         else if has ''spotify'' \<or> has ''netflix'' \<or> has ''steam'' \<or> has ''prime''
                 \<or> has ''disney''
           then ''Entertainment''
         else if has ''enel'' \<or> has ''acea'' \<or> has ''tim'' \<or> has ''vodafone''
                 \<or> has ''windtre'' \<or> has ''bolletta''
           then ''Bills''
         else if has ''affitto'' \<or> has ''rent'' \<or> has ''mutuo'' \<or> has ''mortgage''
           then ''Housing''
         else if has ''farmacia'' \<or> has ''pharma'' \<or> has ''clinic'' \<or> has ''ospedale''
                 \<or> has ''dental''
           then ''Health''
         else if has ''hotel'' \<or> has ''booking'' \<or> has ''airbnb'' \<or> has ''hostel''
           then ''Travel''
         else if has ''fee'' \<or> has ''commission'' then ''Fees''
         else ''Other'')"

text \<open>The keywords of the first and of the third line, and those of all lines.\<close>

definition income_keywords :: "string list" where
  "income_keywords = [''salary'', ''stipend'', ''payroll'', ''bonifico in entrata'']"

definition transfer_keywords :: "string list" where
  "transfer_keywords = [''transfer'', ''bonifico'', ''internal transfer'', ''worldpay'']"

definition all_keywords :: "string list" where
  "all_keywords =
     income_keywords @ [''atm'', ''cash withdrawal'', ''prelievo''] @ transfer_keywords @
     [''amazon'', ''zalando'', ''decathlon'', ''ikea'',
      ''conad'', ''coop'', ''lidl'', ''eurospin'', ''supermerc'',
      ''bar '', ''caffe'', ''ristor'', ''trattoria'', ''locanda'', ''osteria'', ''pizza'',
      ''mcd'', ''burger'', ''kebab'',
      ''trenitalia'', ''italo'', ''uber'', ''taxi'', ''flixbus'', ''ryanair'', ''wizz'',
      ''spotify'', ''netflix'', ''steam'', ''prime'', ''disney'',
      ''enel'', ''acea'', ''tim'', ''vodafone'', ''windtre'', ''bolletta'',
      ''affitto'', ''rent'', ''mutuo'', ''mortgage'',
      ''farmacia'', ''pharma'', ''clinic'', ''ospedale'', ''dental'',
      ''hotel'', ''booking'', ''airbnb'', ''hostel'',
      ''fee'', ''commission'']"

text \<open>
  The specification's reading of the function: a priority list of rules, each a list of
  keywords with a category, of which the first rule with a keyword that occurs in the
  lower-cased name wins, and Other when there is none.
\<close>

definition priority_rules :: "(string list \<times> string) list" where
  "priority_rules =
     [(income_keywords, ''Income''),
      ([''atm'', ''cash withdrawal'', ''prelievo''], ''Cash Withdrawal''),
      (transfer_keywords, ''Transfers''),
      ([''amazon'', ''zalando'', ''decathlon'', ''ikea''], ''Shopping''),
      ([''conad'', ''coop'', ''lidl'', ''eurospin'', ''supermerc''], ''Groceries''),
      ([''bar '', ''caffe'', ''ristor'', ''trattoria'', ''locanda'', ''osteria'', ''pizza'',
        ''mcd'', ''burger'', ''kebab''], ''Restaurants''),
      ([''trenitalia'', ''italo'', ''uber'', ''taxi'', ''flixbus'', ''ryanair'', ''wizz''],
       ''Transport''),
      ([''spotify'', ''netflix'', ''steam'', ''prime'', ''disney''], ''Entertainment''),
      ([''enel'', ''acea'', ''tim'', ''vodafone'', ''windtre'', ''bolletta''], ''Bills''),
      ([''affitto'', ''rent'', ''mutuo'', ''mortgage''], ''Housing''),
      ([''farmacia'', ''pharma'', ''clinic'', ''ospedale'', ''dental''], ''Health''),
      ([''hotel'', ''booking'', ''airbnb'', ''hostel''], ''Travel''),
      ([''fee'', ''commission''], ''Fees'')]"

fun first_match :: "string \<Rightarrow> (string list \<times> string) list \<Rightarrow> string" where
  "first_match s [] = ''Other''"
| "first_match s ((ks, category) # rs) =
     (if list_ex (includes_str s) ks then category else first_match s rs)"

text \<open>\<open>mentions name ks\<close>: some keyword of \<open>ks\<close> occurs in the lower-cased name.\<close>

definition mentions :: "string \<Rightarrow> string list \<Rightarrow> bool" where
  "mentions name ks = list_ex (includes_str (toLowerCase name)) ks"

section \<open>JavaScript values and CSV quoting\<close>

text \<open>
  A value that \<open>JSON.parse\<close> can return, or a built-in function of the engine by its
  name (\<open>JNative\<close>), which only a read through the prototype chain can give. A number is
  carried by the text that \<open>String\<close> prints for it, which is all the program ever
  observes of a parsed number (zero prints as 0).
\<close>

datatype jsval =
    JNull
  | JBool bool
  | JNum string
  | JStr string
  | JArr "jsval list"
  | JObj "(string \<times> jsval) list"
  | JNative string

text \<open>Truthiness, as \<open>a || b\<close> tests it.\<close>

fun truthy :: "jsval \<Rightarrow> bool" where
  "truthy JNull = False"
| "truthy (JBool b) = b"
| "truthy (JNum s) = (s \<noteq> ''0'' \<and> s \<noteq> ''NaN'')"
| "truthy (JStr s) = (s \<noteq> [])"
| "truthy (JArr vs) = True"
| "truthy (JObj kvs) = True"
| "truthy (JNative n) = True"

text \<open>
  \<open>String(value)\<close>; an array prints its elements joined by commas, null as nothing. The
  layout of the text of a built-in function is left to the engine; it is given here as
  V8 prints it.
\<close>

fun String_of :: "jsval \<Rightarrow> string" where
  "String_of JNull = ''null''"
| "String_of (JBool b) = (if b then ''true'' else ''false'')"
| "String_of (JNum s) = s"
| "String_of (JStr s) = s"
| "String_of (JArr vs) = join '','' (map (\<lambda>v. if v = JNull then [] else String_of v) vs)"
| "String_of (JObj kvs) = ''[object Object]''"
| "String_of (JNative n) = ''function '' @ n @ ''() { [native code] }''"

definition dquote :: char where
  "dquote = CHR 0x22"

definition needs_quoting :: "string \<Rightarrow> bool" where
  "needs_quoting s = list_ex (\<lambda>c. c = dquote \<or> c = CHR '','' \<or> c = CHR 0x0A) s"

definition double_quotes :: "string \<Rightarrow> string" where
  "double_quotes s = concat (map (\<lambda>c. if c = dquote then [dquote, dquote] else [c]) s)"

definition csvEscape :: "jsval \<Rightarrow> string" where
  "csvEscape v =
     (if v = JNull then []
      else let s = String_of v
           in if needs_quoting s then [dquote] @ double_quotes s @ [dquote] else s)"

section \<open>JavaScript numbers\<close>

text \<open>
  A Number is NaN, an infinity, or a finite binary64 value, held as the rational it
  denotes. The two zeros are one value here: the program only compares with zero, tests
  truthiness and prints, and none of these tells them apart after \<open>Math.abs\<close>.
\<close>

datatype jsnum = NaN | Fin rat | PInf | NInf

function bits :: "int \<Rightarrow> nat" where
  "bits n = (if n \<le> 0 then 0 else Suc (bits (n div 2)))"
  by pat_completeness auto
termination
  by (relation "measure nat") auto

declare bits.simps [simp del]

text \<open>\<open>ilog2 a b\<close> is the integer part of the binary logarithm of \<open>a / b\<close>.\<close>

definition ilog2 :: "int \<Rightarrow> int \<Rightarrow> int" where
  "ilog2 a b =
     (let e = int (bits a) - int (bits b)
      in if (if 0 \<le> e then b * 2 ^ nat e \<le> a else b \<le> a * 2 ^ nat (- e)) then e else e - 1)"

definition round_half_even :: "int \<Rightarrow> int \<Rightarrow> int" where
  "round_half_even a b =
     (let q = a div b; r = a mod b
      in if 2 * r < b then q else if b < 2 * r then q + 1 else if even q then q else q + 1)"

text \<open>
  \<open>to_double neg a b\<close> rounds the fraction \<open>a / b\<close> (with the sign \<open>neg\<close>) to the nearest
  binary64 value, ties to the even significand: 53 bits of significand, exponents from
  -1022 (below that the spacing stays \<open>2^-1074\<close>), and infinity from \<open>2^1024\<close> on.
\<close>

definition to_double :: "bool \<Rightarrow> int \<Rightarrow> int \<Rightarrow> jsnum" where
  "to_double neg a b =
     (if a = 0 then Fin 0
      else let qe = max (ilog2 a b) (- 1022) - 52;
               m = (if 0 \<le> qe then round_half_even a (b * 2 ^ nat qe)
                    else round_half_even (a * 2 ^ nat (- qe)) b);
               v = (if 0 \<le> qe then of_int m * 2 ^ nat qe else of_int m / 2 ^ nat (- qe))
           in if 2 ^ 1024 \<le> v then (if neg then NInf else PInf)
              else Fin (if neg then - v else v))"

definition digits_val :: "string \<Rightarrow> int" where
  "digits_val ds = foldl (\<lambda>n c. 10 * n + (of_char c - 48)) 0 ds"

text \<open>The exponent part \<open>e\<close>, sign, digits of a decimal literal; it counts only with a digit.\<close>

definition exponent :: "string \<Rightarrow> int" where
  "exponent r =
     (if startsWith r ''e'' \<or> startsWith r ''E''
      then let s = tl r;
               ds = takeWhile is_digit
                      (if startsWith s ''-'' \<or> startsWith s ''+'' then tl s else s)
           in if ds = [] then 0
              else if startsWith s ''-'' then - digits_val ds else digits_val ds
      else 0)"

text \<open>
  \<open>parseFloat\<close>: leading white space is skipped, then the longest prefix that is a decimal
  literal (sign, \<open>Infinity\<close> or digits with an optional fraction and exponent) is read and
  rounded to binary64; without such a prefix the result is NaN.
\<close>

definition parseFloat :: "string \<Rightarrow> jsnum" where
  "parseFloat str =
     (let t = dropWhile is_ws str;
          neg = startsWith t ''-'';
          u = (if startsWith t ''-'' \<or> startsWith t ''+'' then tl t else t)
      in if startsWith u ''Infinity'' then (if neg then NInf else PInf)
         else let ip = takeWhile is_digit u;
                  r1 = dropWhile is_digit u;
                  fp = (if startsWith r1 ''.'' then takeWhile is_digit (tl r1) else []);
                  r2 = (if startsWith r1 ''.'' then dropWhile is_digit (tl r1) else r1)
              in if ip = [] \<and> fp = [] then NaN
                 else let E = exponent r2 - int (length fp);
                          D = digits_val (ip @ fp)
                      in if 0 \<le> E then to_double neg (D * 10 ^ nat E) 1
                         else to_double neg D (10 ^ nat (- E)))"

text \<open>\<open>a < 0\<close>, \<open>a || 0\<close> and \<open>Math.abs\<close> on numbers.\<close>

fun lt_zero :: "jsnum \<Rightarrow> bool" where
  "lt_zero NaN = False"
| "lt_zero (Fin x) = (x < 0)"
| "lt_zero PInf = False"
| "lt_zero NInf = True"

fun or_zero :: "jsnum \<Rightarrow> jsnum" where
  "or_zero NaN = Fin 0"
| "or_zero a = a"

fun Math_abs :: "jsnum \<Rightarrow> jsnum" where
  "Math_abs NaN = NaN"
| "Math_abs (Fin x) = Fin \<bar>x\<bar>"
| "Math_abs PInf = PInf"
| "Math_abs NInf = PInf"

text \<open>The decimal digits of a whole number that is not negative.\<close>

definition digit :: "int \<Rightarrow> char" where
  "digit d = char_of (48 + d)"

function show_int :: "int \<Rightarrow> string" where
  "show_int n = (if n < 10 then [digit n] else show_int (n div 10) @ [digit (n mod 10)])"
  by pat_completeness auto
termination
  by (relation "measure nat") auto

declare show_int.simps [simp del]

text \<open>
  \<open>Number.prototype.toString\<close> for a whole value \<open>X\<close> from \<open>10^21\<close> on: the shortest
  digit string \<open>s\<close> (of \<open>k\<close> digits) and exponent \<open>n\<close> such that \<open>s * 10^(n-k)\<close> rounds to
  \<open>X\<close>, the closest such \<open>s\<close> where there are several, printed in exponent notation.
  The search tries 1 to 17 digits; 17 digits tell any two binary64 values apart.
\<close>

definition sci_ok :: "int \<Rightarrow> nat \<Rightarrow> int \<times> nat \<Rightarrow> bool" where
  "sci_ok X k c =
     (10 ^ (k - 1) \<le> fst c \<and> fst c < 10 ^ k
      \<and> to_double False (fst c * 10 ^ (snd c - k)) 1 = Fin (of_int X))"

definition sci_candidates :: "int \<Rightarrow> nat \<Rightarrow> (int \<times> nat) list" where
  "sci_candidates X k =
     filter (sci_ok X k)
       (concat (map (\<lambda>n. [(X div 10 ^ (n - k), n), (X div 10 ^ (n - k) + 1, n)])
                  [length (show_int X), length (show_int X) + 1]))"

definition sci_dist :: "int \<Rightarrow> nat \<Rightarrow> int \<times> nat \<Rightarrow> int" where
  "sci_dist X k c = \<bar>fst c * 10 ^ (snd c - k) - X\<bar>"

fun sci_search :: "int \<Rightarrow> nat \<Rightarrow> nat \<Rightarrow> int \<times> nat" where
  "sci_search X 0 k =
     (X div 10 ^ (length (show_int X) - k), length (show_int X))"
| "sci_search X (Suc fuel) k =
     (case sci_candidates X k of
        [] \<Rightarrow> sci_search X fuel (Suc k)
      | c # cs \<Rightarrow> foldl (\<lambda>b c'. if sci_dist X k c' < sci_dist X k b then c' else b) c cs)"

definition sci_toString :: "int \<Rightarrow> string" where
  "sci_toString X =
     (let (s, n) = sci_search X 17 1; ds = show_int s
      in (if length ds = 1 then ds else hd ds # ''.'' @ tl ds) @ ''e+'' @ show_int (int n - 1))"

text \<open>
  \<open>x.toFixed(2)\<close>: a finite \<open>x\<close> below \<open>10^21\<close> in size prints the whole number \<open>n\<close> of
  hundredths nearest to it (the larger one on a tie), with at least one digit before the
  point and two after it.
\<close>

definition fixed2 :: "int \<Rightarrow> string" where
  "fixed2 n =
     (let ds = show_int n;
          m = (if length ds \<le> 2 then replicate (3 - length ds) CHR ''0'' @ ds else ds)
      in take (length m - 2) m @ ''.'' @ drop (length m - 2) m)"

fun toFixed2 :: "jsnum \<Rightarrow> string" where
  "toFixed2 NaN = ''NaN''"
| "toFixed2 PInf = ''Infinity''"
| "toFixed2 NInf = ''-Infinity''"
| "toFixed2 (Fin x) =
     (if x < 0 then ''-'' else []) @
     (if 10 ^ 21 \<le> \<bar>x\<bar> then sci_toString \<lfloor>\<bar>x\<bar>\<rfloor>
      else fixed2 \<lfloor>\<bar>x\<bar> * 100 + 1 / 2\<rfloor>)"

section \<open>Dates\<close>

text \<open>The pattern \<open>^\d{4}-\d{2}-\d{2}$\<close>.\<close>

definition iso_pattern :: "string \<Rightarrow> bool" where
  "iso_pattern d =
     (length d = 10 \<and> d ! 4 = CHR ''-'' \<and> d ! 7 = CHR ''-''
      \<and> list_all (\<lambda>i. is_digit (d ! i)) [0, 1, 2, 3, 5, 6, 8, 9])"

text \<open>
  \<open>toISODate\<close>. What \<open>new Date(dateStr)\<close> accepts besides the ISO formats is left to the
  JavaScript engine, so the engine's parser is the parameter \<open>date_parse\<close>: it gives
  \<open>toISOString()\<close> of the date read, or \<open>None\<close> for an invalid date.
\<close>

definition toISODate :: "(string \<Rightarrow> string option) \<Rightarrow> string \<Rightarrow> string" where
  "toISODate date_parse dateStr =
     (if dateStr = [] then []
      else let d = take 10 (trim dateStr)
           in if iso_pattern d then d
              else (case date_parse dateStr of Some t \<Rightarrow> take 10 t | None \<Rightarrow> []))"

section \<open>Decoding the uploaded text\<close>

text \<open>
  A raw row is a JavaScript object with string values, held as the list of its own
  properties in the order of \<open>Object.keys\<close>: first the keys that are array indices
  (a decimal numeral below \<open>2^32 - 1\<close> without a leading zero) in ascending order, then
  the other keys in the order of their first assignment. An assignment to a key that is
  there replaces its value.
\<close>

type_synonym raw_row = "(string \<times> string) list"

definition is_index :: "string \<Rightarrow> bool" where
  "is_index k =
     (k \<noteq> [] \<and> list_all is_digit k \<and> (k = ''0'' \<or> hd k \<noteq> CHR ''0'')
      \<and> digits_val k < 4294967295)"

fun put :: "string \<Rightarrow> 'v \<Rightarrow> (string \<times> 'v) list \<Rightarrow> (string \<times> 'v) list" where
  "put k v [] = [(k, v)]"
| "put k v ((k', v') # kvs) =
     (if k' = k then (k, v) # kvs
      else if is_index k \<and> (\<not> is_index k' \<or> digits_val k < digits_val k')
           then (k, v) # (k', v') # kvs
      else (k', v') # put k v kvs)"

text \<open>
  \<open>rec[h] = v\<close> with a string \<open>v\<close> on an object made by \<open>{}\<close>: the name
  \<open>__proto__\<close> reaches the setter of \<open>Object.prototype\<close>, which ignores a string, so
  that nothing is stored; any other name becomes an own property.
\<close>

definition assign_string :: "string \<Rightarrow> string \<Rightarrow> raw_row \<Rightarrow> raw_row" where
  "assign_string h v rec = (if h = ''__proto__'' then rec else put h v rec)"

text \<open>
  \<open>r[k] || ""\<close> for one of the column names that the program reads (none of them is a
  name of \<open>Object.prototype\<close>): a missing key and an empty value both read as the empty
  string.
\<close>

definition field :: "raw_row \<Rightarrow> string \<Rightarrow> string" where
  "field r k = (case map_of r k of None \<Rightarrow> [] | Some v \<Rightarrow> v)"

definition make_row :: "string list \<Rightarrow> string \<Rightarrow> raw_row" where
  "make_row headers line =
     (let cols = split_on CHR '','' line
      in foldl (\<lambda>rec i. assign_string (headers ! i)
                          (trim (if i < length cols then cols ! i else [])) rec)
           [] [0..<length headers])"

definition fallbackParse :: "string \<Rightarrow> raw_row list \<times> string list" where
  "fallbackParse csvText =
     (let lines = filter (\<lambda>l. l \<noteq> []) (split_lines csvText)
      in if lines = [] then ([], [''Empty file''])
         else let headers = map trim (split_on CHR '','' (hd lines))
              in (map (make_row headers) (tl lines), []))"

section \<open>JavaScript objects\<close>

text \<open>
  The category map is an ordinary object: its own properties, and its prototype. The
  prototype is \<open>Object.prototype\<close> until a write to \<open>__proto__\<close> replaces it by a
  parsed object, a parsed array or null.
\<close>

datatype prototype = Object_prototype | Replaced jsval

record js_object =
  own :: "string \<Rightarrow> jsval option"
  proto :: prototype

text \<open>The object that \<open>{}\<close> makes.\<close>

definition empty_object :: js_object where
  "empty_object = \<lparr>own = Map.empty, proto = Object_prototype\<rparr>"

text \<open>
  The own enumerable properties of a value taken as an object: the members of an object,
  the elements of an array and the characters of a string under their indices, nothing
  for null, a boolean or a number.
\<close>

fun own_props :: "jsval \<Rightarrow> (string \<times> jsval) list" where
  "own_props (JObj kvs) = kvs"
| "own_props (JArr vs) = zip (map (\<lambda>i. show_int (int i)) [0..<length vs]) vs"
| "own_props (JStr s) = zip (map (\<lambda>i. show_int (int i)) [0..<length s]) (map (\<lambda>c. JStr [c]) s)"
| "own_props v = []"

text \<open>
  What \<open>Object.prototype\<close> gives under a name: under \<open>__proto__\<close> its getter returns the
  prototype \<open>self\<close> of the object that is read, under \<open>constructor\<close> the function
  \<open>Object\<close>, under its ten method names those methods, and nothing under any other name.
\<close>

definition Object_prototype_get :: "jsval \<Rightarrow> string \<Rightarrow> jsval option" where
  "Object_prototype_get self k =
     (if k = ''__proto__'' then Some self
      else if k = ''constructor'' then Some (JNative ''Object'')
      else if k \<in> set [''__defineGetter__'', ''__defineSetter__'', ''__lookupGetter__'',
                        ''__lookupSetter__'', ''hasOwnProperty'', ''isPrototypeOf'',
                        ''propertyIsEnumerable'', ''toLocaleString'', ''toString'', ''valueOf'']
           then Some (JNative k)
      else None)"

text \<open>The methods of \<open>Array.prototype\<close> (ECMAScript 2023).\<close>

definition Array_prototype_methods :: "string list" where
  "Array_prototype_methods =
     [''at'', ''concat'', ''copyWithin'', ''entries'', ''every'', ''fill'', ''filter'', ''find'',
      ''findIndex'', ''findLast'', ''findLastIndex'', ''flat'', ''flatMap'', ''forEach'',
      ''includes'', ''indexOf'', ''join'', ''keys'', ''lastIndexOf'', ''map'', ''pop'', ''push'',
      ''reduce'', ''reduceRight'', ''reverse'', ''shift'', ''slice'', ''some'', ''sort'',
      ''splice'', ''toLocaleString'', ''toReversed'', ''toSorted'', ''toSpliced'', ''toString'',
      ''unshift'', ''values'', ''with'']"

text \<open>
  What an object inherits under a name. \<open>Object.prototype\<close> itself is to the program an
  object like the empty one: truthy, and printed as \<open>[object Object]\<close>. A parsed object
  gives its members and then what \<open>Object.prototype\<close> gives; a parsed array gives its
  elements, its length, and then what \<open>Array.prototype\<close> and \<open>Object.prototype\<close> give;
  below a null prototype there is nothing.
\<close>

fun inherited :: "prototype \<Rightarrow> string \<Rightarrow> jsval option" where
  "inherited Object_prototype k = Object_prototype_get (JObj []) k"
| "inherited (Replaced (JObj kvs)) k =
     (case map_of (rev kvs) k of
        Some v \<Rightarrow> Some v
      | None \<Rightarrow> Object_prototype_get (JObj kvs) k)"
| "inherited (Replaced (JArr vs)) k =
     (case map_of (own_props (JArr vs)) k of
        Some v \<Rightarrow> Some v
      | None \<Rightarrow>
          if k = ''length'' then Some (JNum (show_int (int (length vs))))
          else if k = ''constructor'' then Some (JNative ''Array'')
          else if k \<in> set Array_prototype_methods then Some (JNative k)
          else Object_prototype_get (JArr vs) k)"
| "inherited (Replaced v) k = None"

text \<open>\<open>obj[k]\<close>: the own property, or else what the prototype chain gives.\<close>

definition get_prop :: "js_object \<Rightarrow> string \<Rightarrow> jsval option" where
  "get_prop obj k = (case own obj k of Some v \<Rightarrow> Some v | None \<Rightarrow> inherited (proto obj) k)"

text \<open>
  \<open>obj[k] = v\<close>. Every property met on the way up the chain is a writable data
  property, except \<open>__proto__\<close> of \<open>Object.prototype\<close>, which is an accessor. So the
  write makes or replaces an own property, unless the name is \<open>__proto__\<close> and the
  accessor is what the chain gives for it (no own property and no member of a replaced
  prototype has that name, and the chain does not end at null): then the setter replaces
  the prototype when \<open>v\<close> is an object, an array or null, and does nothing otherwise.
\<close>

definition setter_reached :: "js_object \<Rightarrow> bool" where
  "setter_reached obj =
     (own obj ''__proto__'' = None
      \<and> (case proto obj of
            Object_prototype \<Rightarrow> True
          | Replaced (JObj kvs) \<Rightarrow> map_of kvs ''__proto__'' = None
          | Replaced (JArr vs) \<Rightarrow> True
          | Replaced v \<Rightarrow> False))"

fun object_or_null :: "jsval \<Rightarrow> bool" where
  "object_or_null JNull = True"
| "object_or_null (JArr vs) = True"
| "object_or_null (JObj kvs) = True"
| "object_or_null v = False"

definition set_prop :: "js_object \<Rightarrow> string \<Rightarrow> jsval \<Rightarrow> js_object" where
  "set_prop obj k v =
     (if k = ''__proto__'' \<and> setter_reached obj
      then (if object_or_null v then obj\<lparr>proto := Replaced v\<rparr> else obj)
      else obj\<lparr>own := (own obj)(k \<mapsto> v)\<rparr>)"

text \<open>
  \<open>Object.assign(mapping, obj)\<close> writes the own properties of \<open>obj\<close> to \<open>mapping\<close> one
  after the other. (Their order matters only for a name that occurs twice, which a parsed
  object does not have.)
\<close>

definition Object_assign :: "js_object \<Rightarrow> jsval \<Rightarrow> js_object" where
  "Object_assign mapping obj = foldl (\<lambda>m (k, v). set_prop m k v) mapping (own_props obj)"

section \<open>Settings and the session\<close>

datatype date_field = Completed_Date | Started_Date

fun date_column :: "date_field \<Rightarrow> string" where
  "date_column Completed_Date = ''Completed Date''"
| "date_column Started_Date = ''Started Date''"

datatype type_filter = Both | Expense | Income

fun type_name :: "type_filter \<Rightarrow> string" where
  "type_name Both = ''Both''"
| "type_name Expense = ''Expense''"
| "type_name Income = ''Income''"

record settings =
  apiKey :: string
  source :: string
  websiteName :: string
  dateField :: date_field
  onlyCompleted :: bool
  model :: string
  typeFilter :: type_filter

type_synonym category_map = js_object

record session =
  rawRows :: "raw_row list"
  errors :: "string list"
  status :: string
  categoryMap :: category_map

definition expectedHeaders :: "string list" where
  "expectedHeaders =
     [''Type'', ''Product'', ''Started Date'', ''Completed Date'', ''Description'',
      ''Amount'', ''Fee'', ''Currency'', ''State'', ''Balance'']"

text \<open>
  \<open>onFileSelected\<close>: the errors and the category map are reset, the text is decoded, and
  parse errors and missing columns are reported without stopping. \<open>PapaRef\<close> is the
  PapaParse library when it could be loaded: applied to the text (with a header line,
  empty lines skipped) it gives the rows and the messages of its errors; without it the
  text goes to \<open>fallbackParse\<close>.
\<close>

definition onFileSelected ::
  "(string \<Rightarrow> raw_row list \<times> string list) option \<Rightarrow> string \<Rightarrow> session \<Rightarrow> session" where
  "onFileSelected PapaRef text st =
     (let (data, parseErrors) = (case PapaRef of
                                   Some parse \<Rightarrow> parse text
                                 | None \<Rightarrow> fallbackParse text);
          e1 = (if parseErrors \<noteq> []
                then [''Parsing issues: '' @ join '' | '' (take 3 parseErrors)] else []);
          headers = map trim (split_on CHR '','' (hd (split_lines text)));
          missing = filter (\<lambda>h. h \<notin> set headers) expectedHeaders;
          e2 = (if missing \<noteq> []
                then [''Missing expected columns: '' @ join '', '' missing @ ''. Got: ''
                      @ join '', '' headers]
                else [])
      in \<lparr>rawRows = data, errors = e1 @ e2,
          status = ''Loaded '' @ show_int (int (length data)) @ '' rows.'',
          categoryMap = empty_object\<rparr>)"

section \<open>The row pipeline\<close>

definition filteredRows :: "settings \<Rightarrow> raw_row list \<Rightarrow> raw_row list" where
  "filteredRows cfg rows0 =
     (let rows = filter (\<lambda>r. r \<noteq> []) rows0
      in if onlyCompleted cfg
         then filter (\<lambda>r. toUpperCase (field r ''State'') = ''COMPLETED'') rows
         else rows)"

text \<open>The distinct trimmed descriptions, in the order a \<open>Set\<close> keeps them.\<close>

definition uniqueNames :: "raw_row list \<Rightarrow> string list" where
  "uniqueNames rows =
     foldl (\<lambda>s r. let name = trim (field r ''Description'')
                   in if name \<noteq> [] \<and> name \<notin> set s then s @ [name] else s) [] rows"

record normalized =
  Date :: string
  Type :: string
  Amount :: string
  Currency :: string
  Category :: jsval
  Name :: string
  Account :: string
  Notes :: string
  Source :: string

text \<open>The amount column as \<open>transformedAll\<close> reads it: \<open>parseFloat\<close> of the normalized text.\<close>

definition amtNum :: "raw_row \<Rightarrow> jsnum" where
  "amtNum r =
     (let rawAmt = filter (\<lambda>c. \<not> is_ws c)
                     (case map_of r ''Amount'' of None \<Rightarrow> ''0'' | Some v \<Rightarrow> v);
          normalized = map (\<lambda>c. if c = CHR '','' then CHR ''.'' else c)
                         (filter (\<lambda>c. c \<noteq> CHR ''.'') rawAmt)
      in parseFloat normalized)"

definition transformRow ::
  "(string \<Rightarrow> string option) \<Rightarrow> settings \<Rightarrow> category_map \<Rightarrow> raw_row \<Rightarrow> normalized" where
  "transformRow date_parse cfg cmap r =
     (let name = field r ''Description'';
          category = (case get_prop cmap name of
                        Some v \<Rightarrow> if truthy v then v else JStr (heuristicCategory name)
                      | None \<Rightarrow> JStr (heuristicCategory name));
          dateVal = toISODate date_parse
                      (if field r (date_column (dateField cfg)) \<noteq> []
                       then field r (date_column (dateField cfg))
                       else if field r ''Completed Date'' \<noteq> [] then field r ''Completed Date''
                       else field r ''Started Date'')
      in \<lparr>Date = dateVal,
          Type = (if lt_zero (amtNum r) then ''Expense'' else ''Income''),
          Amount = toFixed2 (Math_abs (or_zero (amtNum r))),
          Currency = field r ''Currency'',
          Category = category,
          Name = name,
          Account = (if source cfg \<noteq> [] then source cfg else ''Revolut''),
          Notes = [],
          Source = (if websiteName cfg \<noteq> [] then websiteName cfg else siteNameDefault)\<rparr>)"

definition transformedAll ::
  "(string \<Rightarrow> string option) \<Rightarrow> settings \<Rightarrow> category_map \<Rightarrow> raw_row list
     \<Rightarrow> normalized list" where
  "transformedAll date_parse cfg cmap rows0 =
     map (transformRow date_parse cfg cmap) (filteredRows cfg rows0)"

definition transformedFiltered :: "settings \<Rightarrow> normalized list \<Rightarrow> normalized list" where
  "transformedFiltered cfg rows =
     (if typeFilter cfg = Both then rows
      else filter (\<lambda>r. Type r = type_name (typeFilter cfg)) rows)"

section \<open>Download\<close>

definition cols :: "string list" where
  "cols = [''Date'', ''Type'', ''Amount'', ''Currency'', ''Category'', ''Name'', ''Account'',
           ''Notes'', ''Source'']"

text \<open>\<open>row[c]\<close> for a column name; any other name reads \<open>undefined\<close>, which prints as nothing.\<close>

definition cell :: "normalized \<Rightarrow> string \<Rightarrow> jsval" where
  "cell row c =
     (if c = ''Date'' then JStr (Date row)
      else if c = ''Type'' then JStr (Type row)
      else if c = ''Amount'' then JStr (Amount row)
      else if c = ''Currency'' then JStr (Currency row)
      else if c = ''Category'' then Category row
      else if c = ''Name'' then JStr (Name row)
      else if c = ''Account'' then JStr (Account row)
      else if c = ''Notes'' then JStr (Notes row)
      else if c = ''Source'' then JStr (Source row)
      else JNull)"

definition row_line :: "normalized \<Rightarrow> string" where
  "row_line row = join '','' (map (\<lambda>c. csvEscape (cell row c)) cols)"

text \<open>The text that \<open>handleDownload\<close> puts into the file it offers.\<close>

definition handleDownload :: "normalized list \<Rightarrow> string" where
  "handleDownload rows =
     (let header = join '','' cols;
          body = join [CHR 0x0A] (map row_line rows)
      in header @ [CHR 0x0A] @ body @ [CHR 0x0A])"

section \<open>The external classifier\<close>

text \<open>
  What one request to the classifier comes to: \<open>fetch\<close> (or reading the body) throws,
  and \<open>Rejected\<close> carries the text that \<open>e.message || String(e)\<close> shows for the error;
  the response is not ok and carries a status and a text; or it is ok and
  \<open>data.choices[0].message.content\<close> is a text (a missing content reads as the empty
  text, which the code replaces by the empty object).
\<close>

datatype reply = Rejected string | Status nat string | Content string

text \<open>Names are sent in groups of 40.\<close>

function chunks :: "'a list \<Rightarrow> 'a list list" where
  "chunks xs = (if xs = [] then [] else take 40 xs # chunks (drop 40 xs))"
  by pat_completeness auto
termination
  by (relation "measure length") auto

declare chunks.simps [simp del]

text \<open>
  \<open>text.match(/\{[\s\S]*\}/)\<close>: from the first opening brace to the last closing brace
  after it.
\<close>

definition brace_match :: "string \<Rightarrow> string option" where
  "brace_match text =
     (let r = dropWhile (\<lambda>c. c \<noteq> CHR ''{'') text
      in if r = [] then None
         else let body = rev (dropWhile (\<lambda>c. c \<noteq> CHR ''}'') (rev (tl r)))
              in if body = [] then None else Some (CHR ''{'' # body))"

text \<open>
  One turn of the loop over the groups. \<open>JSON_parse\<close> is the engine's \<open>JSON.parse\<close>:
  the value read, or on the left the message of the error it throws. The text of the
  request (the taxonomy and the numbered names) has no part in the result and is left out.
\<close>

definition classify_group ::
  "(string \<Rightarrow> string + jsval) \<Rightarrow> category_map \<Rightarrow> string list \<Rightarrow> reply
     \<Rightarrow> string + category_map" where
  "classify_group JSON_parse mapping grp rep =
     (case rep of
        Rejected msg \<Rightarrow> Inl msg
      | Status code body \<Rightarrow> Inl (''OpenAI API error: '' @ show_int (int code) @ '' '' @ body)
      | Content c \<Rightarrow>
          let text = (if trim c = [] then ''{}'' else trim c)
          in (case JSON_parse text of
                Inr obj \<Rightarrow> Inr (Object_assign mapping obj)
              | Inl _ \<Rightarrow>
                  (case brace_match text of
                     Some m \<Rightarrow>
                       (case JSON_parse m of
                          Inr obj \<Rightarrow> Inr (Object_assign mapping obj)
                        | Inl msg \<Rightarrow> Inl msg)
                   | None \<Rightarrow>
                       Inr (foldl (\<lambda>m n. set_prop m n (JStr (heuristicCategory n))) mapping grp))))"

text \<open>The loop: \<open>fetch i\<close> is what the \<open>i\<close>-th request of the run comes to.\<close>

fun classify_groups ::
  "(string \<Rightarrow> string + jsval) \<Rightarrow> (nat \<Rightarrow> reply) \<Rightarrow> nat \<Rightarrow> category_map
     \<Rightarrow> string list list \<Rightarrow> string + category_map" where
  "classify_groups JSON_parse fetch i mapping [] = Inr mapping"
| "classify_groups JSON_parse fetch i mapping (grp # grps) =
     (case classify_group JSON_parse mapping grp (fetch i) of
        Inl e \<Rightarrow> Inl e
      | Inr mapping' \<Rightarrow> classify_groups JSON_parse fetch (Suc i) mapping' grps)"

definition classifyWithOpenAI ::
  "(string \<Rightarrow> string + jsval) \<Rightarrow> (nat \<Rightarrow> reply) \<Rightarrow> string list \<Rightarrow> string
     \<Rightarrow> string + category_map" where
  "classifyWithOpenAI JSON_parse fetch names key =
     (if key = [] then Inl ''Please add your LLM API key in Settings.''
      else classify_groups JSON_parse fetch 0 empty_object (chunks names))"

definition handleClassify ::
  "(string \<Rightarrow> string + jsval) \<Rightarrow> (nat \<Rightarrow> reply) \<Rightarrow> settings \<Rightarrow> session \<Rightarrow> session" where
  "handleClassify JSON_parse fetch cfg st =
     (if apiKey cfg = []
      then st\<lparr>status := [], errors := errors st @ [''Please add your LLM API key in Settings.'']\<rparr>
      else (case classifyWithOpenAI JSON_parse fetch
                   (uniqueNames (filteredRows cfg (rawRows st))) (apiKey cfg) of
              Inl e \<Rightarrow> st\<lparr>status := [], errors := errors st @ [e]\<rparr>
            | Inr mapping \<Rightarrow> st\<lparr>categoryMap := mapping, status := ''Classification complete.''\<rparr>))"

section \<open>Initial state and example inputs\<close>

text \<open>The settings and the session as \<open>App\<close> initialises them.\<close>

definition default_settings :: settings where
  "default_settings =
     \<lparr>apiKey = [], source = ''Revolut'', websiteName = siteNameDefault,
      dateField = Completed_Date, onlyCompleted = True, model = ''gpt-4o-mini'',
      typeFilter = Both\<rparr>"

definition initial_session :: session where
  "initial_session = \<lparr>rawRows = [], errors = [], status = [], categoryMap = empty_object\<rparr>"

text \<open>
  For the examples, a \<open>Date\<close> parser that reads no text at all; \<open>toISODate\<close> does not
  ask it about a text that begins with an ISO date.
\<close>

definition no_date_parse :: "string \<Rightarrow> string option" where
  "no_date_parse text = None"

text \<open>The header and the example row of the README, and the file made of the two.\<close>

definition readme_header :: string where
  "readme_header =
     ''Type,Product,Started Date,Completed Date,Description,Amount,Fee,Currency,State,Balance''"

definition readme_row :: string where
  "readme_row =
     ''CARD_PAYMENT,Card,2025-08-01 08:15,2025-08-01 08:15,CONAD SUPERMARKET,-47,30,,EUR,COMPLETED,1234,56''"

definition readme_file :: string where
  "readme_file = readme_header @ [CHR 0x0A] @ readme_row"

text \<open>The normalized row that the README and the specification expect for that row.\<close>

definition conad_row :: normalized where
  "conad_row =
     \<lparr>Date = ''2025-08-01'', Type = ''Expense'', Amount = ''47.30'', Currency = ''EUR'',
      Category = JStr ''Groceries'', Name = ''CONAD SUPERMARKET'', Account = ''Revolut'',
      Notes = [], Source = siteNameDefault\<rparr>"

text \<open>The field of the specification's round-trip example.\<close>

definition quoted_example :: string where
  \<open>quoted_example = ''He said "Hi", bye''\<close>

text \<open>
  Example inputs for the classifier: 41 completed rows with the descriptions
  \<open>shop 0\<close> to \<open>shop 40\<close>, which make two groups; a key in the settings; a classifier
  that answers the first request with a JSON object and the second with status 500.
  \<open>table_parse\<close> stands for \<open>JSON.parse\<close> on the texts of a table: it gives the value
  listed for a text, and for any other text the error of a text that is not JSON.
\<close>

definition example_names :: "string list" where
  "example_names = map (\<lambda>i. ''shop '' @ show_int (int i)) [0..<41]"

definition example_rows :: "raw_row list" where
  "example_rows = map (\<lambda>n. [(''Description'', n), (''State'', ''COMPLETED'')]) example_names"

definition example_settings :: settings where
  "example_settings = default_settings\<lparr>apiKey := ''sk-example''\<rparr>"

definition example_session :: session where
  "example_session = initial_session\<lparr>rawRows := example_rows\<rparr>"

definition first_reply :: string where
  \<open>first_reply = ''{"shop 0":"Groceries"}''\<close>

definition example_fetch :: "nat \<Rightarrow> reply" where
  "example_fetch i = (if i = 0 then Content first_reply else Status 500 ''Internal Server Error'')"

definition table_parse :: "(string \<times> jsval) list \<Rightarrow> string \<Rightarrow> string + jsval" where
  "table_parse table text =
     (case map_of table text of Some v \<Rightarrow> Inr v | None \<Rightarrow> Inl ''Unexpected token'')"

definition example_parse :: "string \<Rightarrow> string + jsval" where
  "example_parse = table_parse [(first_reply, JObj [(''shop 0'', JStr ''Groceries'')])]"

text \<open>
  The value that the content of a reply is read as: the trimmed content itself, or, when
  that is no JSON, its part from the first opening to the last closing brace; \<open>None\<close>
  when neither is JSON.
\<close>

definition parsed_reply :: "(string \<Rightarrow> string + jsval) \<Rightarrow> string \<Rightarrow> jsval option" where
  "parsed_reply JSON_parse c =
     (let text = (if trim c = [] then ''{}'' else trim c)
      in case JSON_parse text of
           Inr v \<Rightarrow> Some v
         | Inl _ \<Rightarrow>
             (case brace_match text of
                Some sub \<Rightarrow> (case JSON_parse sub of Inr v \<Rightarrow> Some v | Inl _ \<Rightarrow> None)
              | None \<Rightarrow> None))"












section \<open>Auxiliary facts\<close>

lemma startsWith_append: "startsWith (k @ s) k"
  by (induction k) auto

lemma join_cols:
  "join '','' cols = ''Date,Type,Amount,Currency,Category,Name,Account,Notes,Source''"
  by (simp add: cols_def)

lemma rawRows_onFileSelected:
  "rawRows (onFileSelected None text st) = fst (fallbackParse text)"
  by (simp add: onFileSelected_def Let_def split_def)

lemma Amount_transformRow:
  "Amount (transformRow date_parse cfg cmap r) = toFixed2 (Math_abs (or_zero (amtNum r)))"
  by (simp add: transformRow_def Let_def)

lemma Type_transformRow:
  "Type (transformRow date_parse cfg cmap r) = (if lt_zero (amtNum r) then ''Expense'' else ''Income'')"
  by (simp add: transformRow_def Let_def)

lemma split_lines_single: "CHR 0x0A \<notin> set s \<Longrightarrow> split_lines s = [s]"
  by (induction s) (auto split: list.splits)

lemma split_on_single: "d \<notin> set s \<Longrightarrow> split_on d s = [s]"
  by (induction s) (auto split: list.splits)

lemma split_lines_header:
  "CHR 0x0A \<notin> set h \<Longrightarrow> CHR 0x0D \<notin> set h
     \<Longrightarrow> split_lines (h @ CHR 0x0A # s) = h # split_lines s"
  by (induction h) (auto split: list.splits)

lemma csvEscape_JStr:
  "csvEscape (JStr s) =
     (if dquote \<in> set s \<or> CHR '','' \<in> set s \<or> CHR 0x0A \<in> set s
      then [dquote] @ double_quotes s @ [dquote] else s)"
  by (auto simp add: csvEscape_def needs_quoting_def list_ex_iff Let_def)

lemma trim_Name: "trim ''Name'' = ''Name''"
  by code_simp


lemma digit_0: "digit 0 = CHR ''0''"
  by code_simp

lemma show_int_small: "n < 10 \<Longrightarrow> show_int n = [digit n]"
  by (simp add: show_int.simps[of n])

lemma show_int_big: "10 \<le> n \<Longrightarrow> show_int n = show_int (n div 10) @ [digit (n mod 10)]"
  by (simp add: show_int.simps[of n])

lemma show_int_nonempty: "show_int n \<noteq> []"
  by (cases "n < 10") (simp_all add: show_int_small show_int_big)

lemma fixed2_format:
  assumes "0 \<le> n"
  shows "fixed2 n = show_int (n div 100) @ ''.'' @ [digit (n div 10 mod 10), digit (n mod 10)]"
proof -
  consider "n < 10" | "10 \<le> n" "n < 100" | "100 \<le> n"
    by linarith
  then show ?thesis
  proof cases
    case 1
    with assms have "n div 100 = 0" "n div 10 = 0" "n mod 10 = n"
      by simp_all
    with 1 show ?thesis
      by (simp add: fixed2_def show_int_small Let_def numeral_3_eq_3 digit_0)
  next
    case 2
    then have a: "n div 100 = 0" "n div 10 < 10" "n div 10 mod 10 = n div 10"
      by simp_all
    from 2 have "show_int n = [digit (n div 10), digit (n mod 10)]"
      by (simp add: show_int_big show_int_small)
    with a show ?thesis
      by (simp add: fixed2_def show_int_small Let_def digit_0)
  next
    case 3
    then have a: "10 \<le> n" "10 \<le> n div 10"
      by simp_all
    have b: "n div 10 div 10 = n div 100"
      by (simp add: zdiv_zmult2_eq)
    from a b have c: "show_int n = show_int (n div 100) @ [digit (n div 10 mod 10), digit (n mod 10)]"
      by (simp add: show_int_big[of n] show_int_big[of "n div 10"])
    have "length (show_int (n div 100)) \<noteq> 0"
      using show_int_nonempty by simp
    with c show ?thesis
      by (simp add: fixed2_def Let_def)
  qed
qed

lemma round_hundredths:
  fixes y :: rat
  assumes "0 \<le> y"
  shows "0 \<le> \<lfloor>y * 100 + 1 / 2\<rfloor> \<and> \<bar>of_int \<lfloor>y * 100 + 1 / 2\<rfloor> / 100 - y\<bar> \<le> 1 / 200"
proof -
  define n where "n = \<lfloor>y * 100 + 1 / 2\<rfloor>"
  have a: "of_int n \<le> y * 100 + 1 / 2" "y * 100 + 1 / 2 < of_int n + 1"
    unfolding n_def by linarith+
  from assms have "0 \<le> y * 100 + 1 / 2"
    by simp
  then have "0 \<le> n"
    unfolding n_def by simp
  moreover from a have "\<bar>of_int n / 100 - y\<bar> \<le> 1 / 200"
    by linarith
  ultimately show ?thesis
    unfolding n_def by simp
qed

lemma digit_not_minus: "0 \<le> d \<Longrightarrow> d \<le> 9 \<Longrightarrow> digit d \<noteq> CHR ''-''"
proof
  assume d: "0 \<le> d" "d \<le> 9" and "digit d = CHR ''-''"
  then have "of_char (char_of (48 + d)) = (of_char CHR ''-'' :: int)"
    by (simp add: digit_def)
  then have "(48 + d) mod 256 = 45"
    by (simp add: of_char_of)
  with d show False
    by simp
qed

lemma show_int_hd: "0 \<le> n \<Longrightarrow> hd (show_int n) \<noteq> CHR ''-''"
proof (induction n rule: show_int.induct)
  case (1 n)
  show ?case
  proof (cases "n < 10")
    case True
    with 1 show ?thesis
      by (simp add: show_int_small digit_not_minus)
  next
    case False
    then have "0 \<le> n div 10"
      by simp
    with 1 False have "hd (show_int (n div 10)) \<noteq> CHR ''-''"
      by simp
    with False show ?thesis
      by (simp add: show_int_big show_int_nonempty)
  qed
qed

lemma sci_candidates_pos: "c \<in> set (sci_candidates X k) \<Longrightarrow> 0 \<le> fst c"
proof -
  assume "c \<in> set (sci_candidates X k)"
  then have "(10::int) ^ (k - 1) \<le> fst c"
    unfolding sci_candidates_def set_filter by (simp only: mem_Collect_eq sci_ok_def)
  moreover have "(0::int) \<le> 10 ^ (k - 1)"
    by simp
  ultimately show ?thesis
    by linarith
qed

lemma foldl_pick: "foldl (\<lambda>b c'. if P c' b then c' else b) c cs \<in> set (c # cs)"
  by (induction cs arbitrary: c) auto

lemma sci_search_nonneg: "0 \<le> X \<Longrightarrow> 0 \<le> fst (sci_search X fuel k)"
proof (induction fuel arbitrary: k)
  case 0
  then show ?case
    by (simp add: pos_imp_zdiv_nonneg_iff)
next
  case (Suc fuel)
  show ?case
  proof (cases "sci_candidates X k")
    case Nil
    with Suc show ?thesis
      by simp
  next
    case (Cons c cs)
    have "foldl (\<lambda>b c'. if sci_dist X k c' < sci_dist X k b then c' else b) c cs \<in> set (c # cs)"
      by (rule foldl_pick)
    with Cons have "foldl (\<lambda>b c'. if sci_dist X k c' < sci_dist X k b then c' else b) c cs
        \<in> set (sci_candidates X k)"
      by simp
    then have "0 \<le> fst (foldl (\<lambda>b c'. if sci_dist X k c' < sci_dist X k b then c' else b) c cs)"
      by (rule sci_candidates_pos)
    with Cons show ?thesis
      by simp
  qed
qed

lemma sci_toString_hd: "0 \<le> X \<Longrightarrow> \<not> startsWith (sci_toString X) ''-''"
proof -
  assume X: "0 \<le> X"
  obtain s n where sn: "sci_search X 17 1 = (s, n)"
    by (cases "sci_search X 17 1")
  with sci_search_nonneg [OF X, of 17 1] have "0 \<le> s"
    by simp
  then have h: "hd (show_int s) \<noteq> CHR ''-''"
    by (rule show_int_hd)
  have ne: "show_int s \<noteq> []"
    by (rule show_int_nonempty)
  then obtain c cs where cs: "show_int s = c # cs"
    by (cases "show_int s") auto
  with h sn show ?thesis
    by (simp add: sci_toString_def Let_def)
qed

lemma fixed2_hd: "0 \<le> n \<Longrightarrow> \<not> startsWith (fixed2 n) ''-''"
proof -
  assume n: "0 \<le> n"
  then have "0 \<le> n div 100"
    by simp
  then have h: "hd (show_int (n div 100)) \<noteq> CHR ''-''"
    by (rule show_int_hd)
  obtain c cs where cs: "show_int (n div 100) = c # cs"
    using show_int_nonempty [of "n div 100"] by (cases "show_int (n div 100)") auto
  with h n show ?thesis
    by (simp add: fixed2_format)
qed

lemma amount_no_minus: "\<not> startsWith (toFixed2 (Math_abs (or_zero a))) ''-''"
proof (cases a)
  case NaN
  then show ?thesis
    by (simp add: fixed2_hd)
next
  case (Fin x)
  have "0 \<le> \<lfloor>\<bar>x\<bar>\<rfloor>" "0 \<le> \<lfloor>\<bar>x\<bar> * 100 + 1 / 2\<rfloor>"
    by simp_all
  with Fin show ?thesis
    by (simp add: sci_toString_hd fixed2_hd)
next
  case PInf
  then show ?thesis by simp
next
  case NInf
  then show ?thesis by simp
qed

lemma Object_assign_JObj:
  "''__proto__'' \<notin> fst ` set kvs
     \<Longrightarrow> Object_assign m (JObj kvs) = m\<lparr>own := own m ++ map_of (rev kvs)\<rparr>"
proof -
  have "foldl (\<lambda>m (k, v). set_prop m k v) m kvs = m\<lparr>own := own m ++ map_of (rev kvs)\<rparr>"
    if "''__proto__'' \<notin> fst ` set kvs" for m :: js_object
    using that
  proof (induction kvs arbitrary: m)
    case Nil
    then show ?case by simp
  next
    case (Cons kv kvs)
    obtain k v where kv: "kv = (k, v)"
      by (cases kv)
    with Cons.prems have k: "k \<noteq> ''__proto__''" and rest: "''__proto__'' \<notin> fst ` set kvs"
      by auto
    have "(own m)(k \<mapsto> v) ++ map_of (rev kvs) = own m ++ (map_of [(k, v)] ++ map_of (rev kvs))"
      by (simp add: map_add_assoc [symmetric])
    with Cons.IH [OF rest, of "m\<lparr>own := (own m)(k \<mapsto> v)\<rparr>"] kv k show ?case
      by (simp add: set_prop_def fun_upd_def)
  qed
  then show "''__proto__'' \<notin> fst ` set kvs
     \<Longrightarrow> Object_assign m (JObj kvs) = m\<lparr>own := own m ++ map_of (rev kvs)\<rparr>"
    by (simp add: Object_assign_def)
qed

lemma classify_group_parsed:
  "parsed_reply JSON_parse c = Some obj
     \<Longrightarrow> classify_group JSON_parse mapping grp (Content c) = Inr (Object_assign mapping obj)"
proof -
  define t where "t = (if trim c = [] then ''{}'' else trim c)"
  assume "parsed_reply JSON_parse c = Some obj"
  then have "(case JSON_parse t of
                Inr v \<Rightarrow> Some v
              | Inl _ \<Rightarrow>
                  (case brace_match t of
                     Some sub \<Rightarrow> (case JSON_parse sub of Inr v \<Rightarrow> Some v | Inl _ \<Rightarrow> None)
                   | None \<Rightarrow> None)) = Some obj"
    by (simp only: parsed_reply_def Let_def t_def [symmetric])
  then have "(case JSON_parse t of
                Inr obj \<Rightarrow> Inr (Object_assign mapping obj)
              | Inl _ \<Rightarrow>
                  (case brace_match t of
                     Some m \<Rightarrow>
                       (case JSON_parse m of
                          Inr obj \<Rightarrow> Inr (Object_assign mapping obj)
                        | Inl msg \<Rightarrow> Inl msg)
                   | None \<Rightarrow>
                       Inr (foldl (\<lambda>m n. set_prop m n (JStr (heuristicCategory n))) mapping grp)))
             = (Inr (Object_assign mapping obj) :: string + js_object)"
    by (auto split: sum.splits option.splits)
  then show ?thesis
    by (simp only: classify_group_def reply.case Let_def t_def [symmetric])
qed

lemma classify_groups_append:
  "classify_groups jp f i m (xs @ ys) =
     (case classify_groups jp f i m xs of
        Inl e \<Rightarrow> Inl e
      | Inr m' \<Rightarrow> classify_groups jp f (i + length xs) m' ys)"
  by (induction xs arbitrary: i m) (auto split: sum.splits)

lemma classify_groups_cong:
  "(\<And>j. i \<le> j \<Longrightarrow> j < i + length gs \<Longrightarrow> f j = g j)
     \<Longrightarrow> classify_groups jp f i m gs = classify_groups jp g i m gs"
proof (induction gs arbitrary: i m)
  case Nil
  then show ?case by simp
next
  case (Cons a gs)
  have "f i = g i"
    using Cons.prems [of i] by simp
  moreover have "classify_groups jp f (Suc i) m' gs = classify_groups jp g (Suc i) m' gs" for m'
    using Cons.prems by (intro Cons.IH) simp_all
  ultimately show ?case
    by (simp split: sum.splits)
qed


lemma handleClassify_failure:
  assumes "apiKey cfg \<noteq> []"
    and "chunks (uniqueNames (filteredRows cfg (rawRows st))) = sent @ grp # unsent"
    and "classify_groups JSON_parse fetch 0 empty_object sent = Inr mapping"
    and "classify_group JSON_parse mapping grp (fetch (length sent)) = Inl e"
  shows "handleClassify JSON_parse fetch cfg st = st\<lparr>status := [], errors := errors st @ [e]\<rparr>"
  using assms
  by (simp add: handleClassify_def classifyWithOpenAI_def classify_groups_append)

lemma example_unique:
  "uniqueNames (filteredRows example_settings (rawRows example_session)) = example_names"
  by code_simp

lemma example_chunks:
  "chunks example_names = [take 40 example_names] @ [''shop 40''] # []"
  by code_simp

lemma example_first:
  "classify_group example_parse empty_object (take 40 example_names) (example_fetch 0)
     = Inr \<lparr>own = [''shop 0'' \<mapsto> JStr ''Groceries''], proto = Object_prototype\<rparr>"
proof -
  have a: "trim first_reply = first_reply"
    by code_simp
  have b: "first_reply \<noteq> []"
    by (simp add: first_reply_def)
  have c: "example_parse first_reply = Inr (JObj [(''shop 0'', JStr ''Groceries'')])"
    by (simp add: example_parse_def table_parse_def)
  from a b c have "parsed_reply example_parse first_reply = Some (JObj [(''shop 0'', JStr ''Groceries'')])"
    by (simp add: parsed_reply_def)
  then show ?thesis
    by (simp add: example_fetch_def classify_group_parsed Object_assign_JObj empty_object_def)
qed

lemma example_second:
  "classify_group example_parse mapping [''shop 40''] (example_fetch 1)
     = Inl ''OpenAI API error: 500 Internal Server Error''"
proof -
  have "show_int 500 = ''500''"
    by code_simp
  then show ?thesis
    by (simp add: classify_group_def example_fetch_def)
qed

lemma example_run:
  "handleClassify example_parse example_fetch example_settings example_session
     = example_session\<lparr>status := [], errors := [''OpenAI API error: 500 Internal Server Error'']\<rparr>"
proof -
  have a: "apiKey example_settings \<noteq> []"
    by (simp add: example_settings_def)
  have b: "classify_groups example_parse example_fetch 0 empty_object [take 40 example_names]
             = Inr \<lparr>own = [''shop 0'' \<mapsto> JStr ''Groceries''], proto = Object_prototype\<rparr>"
    by (simp add: example_first)
  have c: "errors example_session = []"
    by (simp add: example_session_def initial_session_def)
  from handleClassify_failure [of example_settings example_session "[take 40 example_names]"
      "[''shop 40'']" "[]" example_parse example_fetch
      "\<lparr>own = [''shop 0'' \<mapsto> JStr ''Groceries''], proto = Object_prototype\<rparr>"
      "''OpenAI API error: 500 Internal Server Error''"]
    a b c
    example_second [of "\<lparr>own = [''shop 0'' \<mapsto> JStr ''Groceries''], proto = Object_prototype\<rparr>"]
  show ?thesis
    by (simp add: example_unique example_chunks)
qed

lemma not_proto_key: "''Name'' \<noteq> ''__proto__''"
  by simp

lemma readme_file_decoded:
  "fst (fallbackParse readme_file) =
     [[(''Type'', ''CARD_PAYMENT''), (''Product'', ''Card''),
       (''Started Date'', ''2025-08-01 08:15''), (''Completed Date'', ''2025-08-01 08:15''),
       (''Description'', ''CONAD SUPERMARKET''), (''Amount'', ''-47''), (''Fee'', ''30''),
       (''Currency'', []), (''State'', ''EUR''), (''Balance'', ''COMPLETED'')]]"
  by code_simp

section \<open>Properties of the heuristic rules\<close>

text \<open>
  C8. \<open>heuristicCategory\<close> is a function of the name alone, and it is the first match
  in the priority list of its rules. "Salary ACME" is Income, "Conad Superstore" is
  Groceries, "bonifico in entrata" is Income; a name in which no keyword occurs is
  Other; and a name in which an income keyword occurs is Income whatever else occurs in
  it, a transfer keyword included, since the income rule comes before the transfer rule.
\<close>

theorem heuristic_first_match_wins:
  "heuristicCategory ''Salary ACME'' = ''Income''
   \<and> heuristicCategory ''Conad Superstore'' = ''Groceries''
   \<and> heuristicCategory ''bonifico in entrata'' = ''Income''
   \<and> (\<not> mentions name all_keywords \<longrightarrow> heuristicCategory name = ''Other'')
   \<and> (mentions name' income_keywords \<longrightarrow> heuristicCategory name' = ''Income'')
   \<and> heuristicCategory name'' = first_match (toLowerCase name'') priority_rules"
proof -
  have a: "heuristicCategory ''Salary ACME'' = ''Income''"
    by code_simp
  have b: "heuristicCategory ''Conad Superstore'' = ''Groceries''"
    by code_simp
  have c: "heuristicCategory ''bonifico in entrata'' = ''Income''"
    by code_simp
  have d: "\<not> mentions name all_keywords \<Longrightarrow> heuristicCategory name = ''Other''"
    by (simp add: mentions_def all_keywords_def income_keywords_def transfer_keywords_def
        heuristicCategory_def Let_def)
  have e: "mentions name' income_keywords \<Longrightarrow> heuristicCategory name' = ''Income''"
    by (auto simp add: mentions_def income_keywords_def heuristicCategory_def Let_def)
  have f: "heuristicCategory name'' = first_match (toLowerCase name'') priority_rules"
    by (simp add: heuristicCategory_def priority_rules_def income_keywords_def
        transfer_keywords_def Let_def)
  from a b c d e f show ?thesis
    by blast
qed

theorem heuristic_first_match_wins_witness:
  "\<not> mentions ''Pagamento POS'' all_keywords
   \<and> heuristicCategory ''Pagamento POS'' = ''Other''
   \<and> mentions ''Bonifico in entrata ACME'' income_keywords
   \<and> mentions ''Bonifico in entrata ACME'' transfer_keywords
   \<and> heuristicCategory ''Bonifico in entrata ACME'' = ''Income''"
proof -
  have a: "\<not> mentions ''Pagamento POS'' all_keywords"
    by code_simp
  have b: "mentions ''Bonifico in entrata ACME'' income_keywords"
    by code_simp
  have c: "mentions ''Bonifico in entrata ACME'' transfer_keywords"
    by code_simp
  from a b c
    heuristic_first_match_wins [of "''Pagamento POS''" "''Bonifico in entrata ACME''" "[]"]
  show ?thesis
    by blast
qed

section \<open>The downloaded file\<close>

text \<open>
  C1. The text that \<open>handleDownload\<close> produces is not free of a header: it always begins
  with the line of the nine column names, before any data line. For the one row that the
  README expects of its example, the file is that header line and then the data line;
  for no rows at all it is the header line and an empty line.
\<close>

theorem download_begins_with_header:
  "startsWith (handleDownload rows)
     (''Date,Type,Amount,Currency,Category,Name,Account,Notes,Source'' @ [CHR 0x0A])
   \<and> handleDownload [] =
       ''Date,Type,Amount,Currency,Category,Name,Account,Notes,Source'' @ [CHR 0x0A, CHR 0x0A]
   \<and> handleDownload [conad_row] =
       ''Date,Type,Amount,Currency,Category,Name,Account,Notes,Source'' @ [CHR 0x0A] @
       ''2025-08-01,Expense,47.30,EUR,Groceries,CONAD SUPERMARKET,Revolut,,Revolut CSV Transformer''
       @ [CHR 0x0A]"
proof -
  have a: "startsWith (handleDownload rows)
     (''Date,Type,Amount,Currency,Category,Name,Account,Notes,Source'' @ [CHR 0x0A])"
    unfolding handleDownload_def Let_def join_cols
    using startsWith_append
      [of "''Date,Type,Amount,Currency,Category,Name,Account,Notes,Source'' @ [CHR 0x0A]"]
    by simp
  have b: "handleDownload [] =
       ''Date,Type,Amount,Currency,Category,Name,Account,Notes,Source'' @ [CHR 0x0A, CHR 0x0A]"
    unfolding handleDownload_def Let_def join_cols by simp
  have c: "row_line conad_row =
       ''2025-08-01,Expense,47.30,EUR,Groceries,CONAD SUPERMARKET,Revolut,,Revolut CSV Transformer''"
    by code_simp
  have d: "handleDownload [conad_row] =
       ''Date,Type,Amount,Currency,Category,Name,Account,Notes,Source'' @ [CHR 0x0A] @
       ''2025-08-01,Expense,47.30,EUR,Groceries,CONAD SUPERMARKET,Revolut,,Revolut CSV Transformer''
       @ [CHR 0x0A]"
    unfolding handleDownload_def Let_def join_cols by (simp add: c)
  from a b d show ?thesis
    by blast
qed

section \<open>Amounts in the two notations\<close>

text \<open>
  C2. The two notations do not give the same number. The amount "1.234,56" is read as
  1234.56 and printed as 1234.56, but "1,234.56" loses its point, has its comma turned
  into the point, is read as 1.23456 and is printed as 1.23; the README's other US
  example "-47.30" is read as -4730.
\<close>

theorem us_amount_misread:
  "Amount (transformRow date_parse cfg cmap [(''Amount'', ''1.234,56'')]) = ''1234.56''
   \<and> Amount (transformRow date_parse cfg cmap [(''Amount'', ''1,234.56'')]) = ''1.23''
   \<and> Amount (transformRow date_parse cfg cmap [(''Amount'', ''-47.30'')]) = ''4730.00''
   \<and> amtNum [(''Amount'', ''1,234.56'')] \<noteq> amtNum [(''Amount'', ''1.234,56'')]"
proof -
  have a: "toFixed2 (Math_abs (or_zero (amtNum [(''Amount'', ''1.234,56'')]))) = ''1234.56''"
    by code_simp
  have b: "toFixed2 (Math_abs (or_zero (amtNum [(''Amount'', ''1,234.56'')]))) = ''1.23''"
    by code_simp
  have c: "toFixed2 (Math_abs (or_zero (amtNum [(''Amount'', ''-47.30'')]))) = ''4730.00''"
    by code_simp
  have d: "amtNum [(''Amount'', ''1,234.56'')] \<noteq> amtNum [(''Amount'', ''1.234,56'')]"
  proof
    assume "amtNum [(''Amount'', ''1,234.56'')] = amtNum [(''Amount'', ''1.234,56'')]"
    with a b have "''1.23'' = ''1234.56''"
      by simp
    then show False
      by simp
  qed
  from a b c d show ?thesis
    by (simp add: Amount_transformRow)
qed

section \<open>The example row of the README\<close>

text \<open>
  C3. The example row does not come out as the expected normalized row. Decoding splits
  it at every comma, also at the decimal commas, so under the ten headers the Amount is
  "-47", the Fee "30", the Currency empty, the State "EUR" and the Balance "COMPLETED".
  With the initial settings (Completed Date, completed only) the State is not COMPLETED
  and the pipeline produces no row at all; without the completed-only filter it produces
  a row with the amount 47.00 and no currency.
\<close>

theorem readme_row_yields_nothing:
  "rawRows (onFileSelected None readme_file st) =
     [[(''Type'', ''CARD_PAYMENT''), (''Product'', ''Card''),
       (''Started Date'', ''2025-08-01 08:15''), (''Completed Date'', ''2025-08-01 08:15''),
       (''Description'', ''CONAD SUPERMARKET''), (''Amount'', ''-47''), (''Fee'', ''30''),
       (''Currency'', []), (''State'', ''EUR''), (''Balance'', ''COMPLETED'')]]
   \<and> transformedFiltered default_settings
        (transformedAll date_parse default_settings cmap
           (rawRows (onFileSelected None readme_file st))) = []
   \<and> transformedFiltered (default_settings\<lparr>onlyCompleted := False\<rparr>)
        (transformedAll date_parse (default_settings\<lparr>onlyCompleted := False\<rparr>) empty_object
           (rawRows (onFileSelected None readme_file st))) =
       [conad_row\<lparr>Amount := ''47.00'', Currency := []\<rparr>]"
proof -
  have a: "transformedAll date_parse default_settings cmap (fst (fallbackParse readme_file)) = []"
    unfolding readme_file_decoded by code_simp
  have b: "transformedAll date_parse (default_settings\<lparr>onlyCompleted := False\<rparr>) empty_object
             (fst (fallbackParse readme_file)) = [conad_row\<lparr>Amount := ''47.00'', Currency := []\<rparr>]"
    unfolding readme_file_decoded by code_simp
  have c: "typeFilter default_settings = Both"
    by (simp add: default_settings_def)
  from a b c show ?thesis
    by (simp add: rawRows_onFileSelected readme_file_decoded transformedFiltered_def)
qed

section \<open>Quoting and decoding\<close>

text \<open>
  C5, as stated, at its own example: the quoted form of \<open>He said "Hi", bye\<close> under a
  one-column header does not decode to the field again. The decoder splits at the comma
  inside the quotes and keeps the quotes, so the column reads \<open>"He said ""Hi""\<close>.
\<close>

theorem decode_keeps_quotes_counterexample:
  \<open>csvEscape (JStr quoted_example) = ''"He said ""Hi"", bye"''
   \<and> fst (fallbackParse (''Name'' @ [CHR 0x0A] @ csvEscape (JStr quoted_example)))
       = [[(''Name'', ''"He said ""Hi""'')]]
   \<and> field (hd (fst (fallbackParse (''Name'' @ [CHR 0x0A] @ csvEscape (JStr quoted_example)))))
        ''Name'' \<noteq> quoted_example\<close>
  by code_simp

text \<open>
  C5, amended. A field is wrapped in double quotes, with its double quotes doubled, if
  and only if it contains a comma, a double quote or a line feed, and is written as it is
  otherwise; \<open>He said "Hi", bye\<close> is written \<open>"He said ""Hi"", bye"\<close>. Decoding what
  was written gives the field back when the field needed no quoting, is not empty and has
  no white space at its ends.
\<close>

theorem quoting_rule_and_plain_round_trip:
  \<open>csvEscape (JStr s) =
     (if dquote \<in> set s \<or> CHR '','' \<in> set s \<or> CHR 0x0A \<in> set s
      then [dquote] @ double_quotes s @ [dquote] else s)
   \<and> csvEscape (JStr quoted_example) = ''"He said ""Hi"", bye"''
   \<and> (dquote \<notin> set t \<and> CHR '','' \<notin> set t \<and> CHR 0x0A \<notin> set t \<and> trim t = t \<and> t \<noteq> []
        \<longrightarrow> fst (fallbackParse (''Name'' @ [CHR 0x0A] @ csvEscape (JStr t))) = [[(''Name'', t)]])\<close>
proof -
  have a: \<open>csvEscape (JStr quoted_example) = ''"He said ""Hi"", bye"''\<close>
    by code_simp
  have b: "fst (fallbackParse (''Name'' @ [CHR 0x0A] @ csvEscape (JStr t))) = [[(''Name'', t)]]"
    if t: "dquote \<notin> set t" "CHR '','' \<notin> set t" "CHR 0x0A \<notin> set t" "trim t = t" "t \<noteq> []"
  proof -
    have "split_lines (''Name'' @ CHR 0x0A # t) = [''Name'', t]"
      using t by (simp add: split_lines_header split_lines_single)
    then show ?thesis
      using t
      by (simp add: csvEscape_JStr fallbackParse_def Let_def split_on_single trim_Name
          make_row_def assign_string_def)
  qed
  from a b show ?thesis
    by (simp add: csvEscape_JStr)
qed

theorem quoting_rule_and_plain_round_trip_witness:
  \<open>dquote \<notin> set ''CONAD SUPERMARKET'' \<and> CHR '','' \<notin> set ''CONAD SUPERMARKET''
   \<and> CHR 0x0A \<notin> set ''CONAD SUPERMARKET'' \<and> trim ''CONAD SUPERMARKET'' = ''CONAD SUPERMARKET''
   \<and> ''CONAD SUPERMARKET'' \<noteq> []
   \<and> fst (fallbackParse (''Name'' @ [CHR 0x0A] @ csvEscape (JStr ''CONAD SUPERMARKET'')))
       = [[(''Name'', ''CONAD SUPERMARKET'')]]
   \<and> csvEscape (JStr ''a,b'') = ''"a,b"''\<close>
proof -
  have a: "dquote \<notin> set ''CONAD SUPERMARKET'' \<and> CHR '','' \<notin> set ''CONAD SUPERMARKET''
           \<and> CHR 0x0A \<notin> set ''CONAD SUPERMARKET''"
    by (simp add: dquote_def)
  have b: "trim ''CONAD SUPERMARKET'' = ''CONAD SUPERMARKET''"
    by code_simp
  have c: \<open>[dquote] @ double_quotes ''a,b'' @ [dquote] = ''"a,b"''\<close>
    by code_simp
  from a b c quoting_rule_and_plain_round_trip [of "''a,b''" "''CONAD SUPERMARKET''"]
    quoting_rule_and_plain_round_trip [of "''CONAD SUPERMARKET''" "''CONAD SUPERMARKET''"]
  show ?thesis
    by simp
qed

section \<open>The completed-only filter\<close>

text \<open>
  C7, as stated, fails: with the completed-only setting on, a row whose State is
  \<open>completed\<close> in lower case is admitted although its State is not the string COMPLETED.
\<close>

theorem lower_case_state_admitted_counterexample:
  "onlyCompleted default_settings
   \<and> filteredRows default_settings [[(''State'', ''completed'')]] = [[(''State'', ''completed'')]]
   \<and> field [(''State'', ''completed'')] ''State'' \<noteq> ''COMPLETED''"
  by code_simp

text \<open>
  C7, amended. With the completed-only setting on, the filter admits exactly the raw
  rows whose State column, converted to upper case, is COMPLETED, in their order; so a
  State written in another case is admitted too, and every other row is discarded.
\<close>

theorem completed_filter_ignores_case:
  "onlyCompleted cfg \<Longrightarrow>
     filteredRows cfg rows = filter (\<lambda>r. toUpperCase (field r ''State'') = ''COMPLETED'') rows"
  by (auto simp add: filteredRows_def Let_def field_def toUpperCase_def intro!: filter_cong)

theorem completed_filter_ignores_case_witness:
  "onlyCompleted default_settings
   \<and> filteredRows default_settings
        [[(''State'', ''COMPLETED'')], [(''State'', ''Completed'')], [(''State'', ''PENDING'')],
         [(''Amount'', ''1'')]]
       = [[(''State'', ''COMPLETED'')], [(''State'', ''Completed'')]]"
proof -
  have a: "onlyCompleted default_settings"
    by (simp add: default_settings_def)
  have b: "filter (\<lambda>r. toUpperCase (field r ''State'') = ''COMPLETED'')
             [[(''State'', ''COMPLETED'')], [(''State'', ''Completed'')],
              [(''State'', ''PENDING'')], [(''Amount'', ''1'')]]
           = [[(''State'', ''COMPLETED'')], [(''State'', ''Completed'')]]"
    by code_simp
  from a b completed_filter_ignores_case [OF a] show ?thesis
    by simp
qed

section \<open>Amounts that cannot be read\<close>



section \<open>The sign rule\<close>

text \<open>
  C6, as stated, fails for a negative amount that is infinite or at least \<open>10^21\<close> in
  size. The amount \<open>-1e21\<close> is read as \<open>-10^21\<close>; the row is an Expense, but its Amount
  is \<open>1e+21\<close>, not the value rounded to two decimal digits, which would be printed
  \<open>1000000000000000000000.00\<close>. The amount \<open>-Infinity\<close> gives an Expense with the
  Amount \<open>Infinity\<close>.
\<close>

theorem huge_amount_not_two_decimals_counterexample:
  "amtNum [(''Amount'', ''-1e21'')] = Fin (- 1000000000000000000000)
   \<and> Type (transformRow no_date_parse default_settings empty_object [(''Amount'', ''-1e21'')])
       = ''Expense''
   \<and> Amount (transformRow no_date_parse default_settings empty_object [(''Amount'', ''-1e21'')])
       = ''1e+21''
   \<and> fixed2 (1000000000000000000000 * 100) = ''1000000000000000000000.00''
   \<and> amtNum [(''Amount'', ''-Infinity'')] = NInf
   \<and> Type (transformRow no_date_parse default_settings empty_object [(''Amount'', ''-Infinity'')])
       = ''Expense''
   \<and> Amount (transformRow no_date_parse default_settings empty_object [(''Amount'', ''-Infinity'')])
       = ''Infinity''"
proof -
  have a: "amtNum [(''Amount'', ''-1e21'')] = Fin (- 1000000000000000000000)"
    by code_simp
  have b: "toFixed2 (Math_abs (or_zero (amtNum [(''Amount'', ''-1e21'')]))) = ''1e+21''"
    by code_simp
  have c: "fixed2 (1000000000000000000000 * 100) = ''1000000000000000000000.00''"
    by code_simp
  have d: "amtNum [(''Amount'', ''-Infinity'')] = NInf"
    by code_simp
  from a b c d show ?thesis
    by (simp add: Amount_transformRow Type_transformRow)
qed

text \<open>
  C6, amended. A row whose parsed amount is negative (a negative number or minus
  infinity) gets the type Expense; a row whose parsed amount is zero or positive gets the
  type Income. For a finite amount \<open>x\<close> below \<open>10^21\<close> in size the Amount is the absolute
  value rounded to hundredths: with \<open>n\<close> the whole number nearest to \<open>100 * |x|\<close> (the
  larger on a tie), it is the digits of \<open>n div 100\<close>, a point and the two digits of
  \<open>n mod 100\<close>, and \<open>n / 100\<close> is not negative and differs from \<open>|x|\<close> by at most half a
  hundredth. An infinite amount gives the Amount \<open>Infinity\<close>, and a finite one from
  \<open>10^21\<close> on is printed as \<open>Number.prototype.toString\<close> prints its absolute value. No
  Amount at all begins with a minus sign: the sign lives in the type only.
\<close>

theorem sign_lives_in_type:
  "((amtNum r = Fin x \<and> x < 0) \<or> amtNum r = NInf
      \<longrightarrow> Type (transformRow date_parse cfg cmap r) = ''Expense'')
   \<and> (amtNum r = Fin x \<and> \<bar>x\<bar> < 10 ^ 21
      \<longrightarrow> (let n = \<lfloor>\<bar>x\<bar> * 100 + 1 / 2\<rfloor>
           in Amount (transformRow date_parse cfg cmap r)
                = show_int (n div 100) @ ''.'' @ [digit (n div 10 mod 10), digit (n mod 10)]
              \<and> 0 \<le> n \<and> \<bar>of_int n / 100 - \<bar>x\<bar>\<bar> \<le> 1 / 200))
   \<and> ((amtNum r' = Fin y \<and> 0 \<le> y) \<or> amtNum r' = PInf
      \<longrightarrow> Type (transformRow date_parse cfg cmap r') = ''Income'')
   \<and> \<not> startsWith (Amount (transformRow date_parse cfg cmap r'')) ''-''
   \<and> (amtNum u = NInf \<or> amtNum u = PInf
      \<longrightarrow> Amount (transformRow date_parse cfg cmap u) = ''Infinity'')
   \<and> (amtNum w = Fin z \<and> 10 ^ 21 \<le> \<bar>z\<bar>
      \<longrightarrow> Amount (transformRow date_parse cfg cmap w) = sci_toString \<lfloor>\<bar>z\<bar>\<rfloor>)"
proof -
  have a: "Type (transformRow date_parse cfg cmap r) = ''Expense''"
    if "(amtNum r = Fin x \<and> x < 0) \<or> amtNum r = NInf"
    using that by (auto simp add: Type_transformRow)
  have b: "Type (transformRow date_parse cfg cmap r') = ''Income''"
    if "(amtNum r' = Fin y \<and> 0 \<le> y) \<or> amtNum r' = PInf"
    using that by (auto simp add: Type_transformRow)
  have c: "let n = \<lfloor>\<bar>x\<bar> * 100 + 1 / 2\<rfloor>
           in Amount (transformRow date_parse cfg cmap r)
                = show_int (n div 100) @ ''.'' @ [digit (n div 10 mod 10), digit (n mod 10)]
              \<and> 0 \<le> n \<and> \<bar>of_int n / 100 - \<bar>x\<bar>\<bar> \<le> 1 / 200"
    if x: "amtNum r = Fin x \<and> \<bar>x\<bar> < 10 ^ 21"
  proof -
    have r: "0 \<le> \<lfloor>\<bar>x\<bar> * 100 + 1 / 2\<rfloor>
             \<and> \<bar>of_int \<lfloor>\<bar>x\<bar> * 100 + 1 / 2\<rfloor> / 100 - \<bar>x\<bar>\<bar> \<le> 1 / 200"
      by (rule round_hundredths) simp
    from x have "Amount (transformRow date_parse cfg cmap r) = fixed2 \<lfloor>\<bar>x\<bar> * 100 + 1 / 2\<rfloor>"
      by (simp add: Amount_transformRow)
    with r show ?thesis
      by (simp add: fixed2_format Let_def)
  qed
  have d: "\<not> startsWith (Amount (transformRow date_parse cfg cmap r'')) ''-''"
    unfolding Amount_transformRow by (rule amount_no_minus)
  have e: "Amount (transformRow date_parse cfg cmap u) = ''Infinity''"
    if "amtNum u = NInf \<or> amtNum u = PInf"
    using that by (auto simp add: Amount_transformRow)
  have f: "Amount (transformRow date_parse cfg cmap w) = sci_toString \<lfloor>\<bar>z\<bar>\<rfloor>"
    if "amtNum w = Fin z \<and> 10 ^ 21 \<le> \<bar>z\<bar>"
    using that by (simp add: Amount_transformRow)
  from a b c d e f show ?thesis
    by blast
qed

theorem sign_lives_in_type_witness:
  "amtNum [(''Amount'', ''-47,30'')] = Fin (- (3328441599603507 / 70368744177664))
   \<and> - (3328441599603507 / 70368744177664) < (0::rat)
   \<and> \<bar>- (3328441599603507 / 70368744177664)\<bar> < (10::rat) ^ 21
   \<and> Type (transformRow no_date_parse default_settings empty_object [(''Amount'', ''-47,30'')]) = ''Expense''
   \<and> Amount (transformRow no_date_parse default_settings empty_object [(''Amount'', ''-47,30'')]) = ''47.30''
   \<and> amtNum [(''Amount'', ''1.250,00'')] = Fin 1250 \<and> (0::rat) \<le> 1250
   \<and> Type (transformRow no_date_parse default_settings empty_object [(''Amount'', ''1.250,00'')]) = ''Income''
   \<and> amtNum [(''Amount'', ''Infinity'')] = PInf
   \<and> Amount (transformRow no_date_parse default_settings empty_object [(''Amount'', ''Infinity'')]) = ''Infinity''
   \<and> amtNum [(''Amount'', ''1e21'')] = Fin 1000000000000000000000
   \<and> (10::rat) ^ 21 \<le> \<bar>1000000000000000000000\<bar>
   \<and> Amount (transformRow no_date_parse default_settings empty_object [(''Amount'', ''1e21'')])
       = sci_toString \<lfloor>\<bar>1000000000000000000000 :: rat\<bar>\<rfloor>"
proof -
  have a: "amtNum [(''Amount'', ''-47,30'')] = Fin (- (3328441599603507 / 70368744177664))"
    by code_simp
  have b: "- (3328441599603507 / 70368744177664) < (0::rat)"
    by simp
  have c: "\<bar>- (3328441599603507 / 70368744177664)\<bar> < (10::rat) ^ 21"
    by simp
  have d: "amtNum [(''Amount'', ''1.250,00'')] = Fin 1250"
    by code_simp
  have e: "(0::rat) \<le> 1250"
    by simp
  have f: "toFixed2 (Math_abs (or_zero (amtNum [(''Amount'', ''-47,30'')]))) = ''47.30''"
    by code_simp
  have g: "amtNum [(''Amount'', ''Infinity'')] = PInf"
    by code_simp
  have h: "amtNum [(''Amount'', ''1e21'')] = Fin 1000000000000000000000"
    by code_simp
  have i: "(10::rat) ^ 21 \<le> \<bar>1000000000000000000000\<bar>"
    by simp
  from a b c d e f g h i
    sign_lives_in_type [where r = "[(''Amount'', ''-47,30'')]"
      and x = "- (3328441599603507 / 70368744177664)"
      and date_parse = no_date_parse and cfg = default_settings and cmap = empty_object
      and r' = "[(''Amount'', ''1.250,00'')]" and y = 1250 and r'' = "[]"
      and u = "[(''Amount'', ''Infinity'')]"
      and w = "[(''Amount'', ''1e21'')]" and z = 1000000000000000000000]
  show ?thesis
    unfolding Amount_transformRow by blast
qed

section \<open>A classification run that fails\<close>

text \<open>
  C4, as stated, fails. Of 41 names the first 40 are classified by a first request that
  succeeds and gives \<open>shop 0\<close> the category Groceries; the second request is answered
  with status 500. The run ends with that error, and the session's category map holds
  nothing for \<open>shop 0\<close>: the result of the first group is not kept.
\<close>

theorem partial_progress_lost_counterexample:
  "classify_group example_parse empty_object (take 40 example_names) (example_fetch 0)
     = Inr \<lparr>own = [''shop 0'' \<mapsto> JStr ''Groceries''], proto = Object_prototype\<rparr>
   \<and> classify_group example_parse
        \<lparr>own = [''shop 0'' \<mapsto> JStr ''Groceries''], proto = Object_prototype\<rparr> [''shop 40'']
        (example_fetch 1) = Inl ''OpenAI API error: 500 Internal Server Error''
   \<and> errors (handleClassify example_parse example_fetch example_settings example_session)
       = [''OpenAI API error: 500 Internal Server Error'']
   \<and> get_prop
        (categoryMap (handleClassify example_parse example_fetch example_settings example_session))
        ''shop 0'' = None"
proof -
  have a: "categoryMap example_session = empty_object"
    by (simp add: example_session_def initial_session_def)
  have b: "get_prop empty_object ''shop 0'' = None"
    by code_simp
  from a b example_first
    example_second [of "\<lparr>own = [''shop 0'' \<mapsto> JStr ''Groceries''], proto = Object_prototype\<rparr>"]
  show ?thesis
    by (simp add: example_run)
qed

text \<open>
  C4, amended. When a request of a classification run fails (a response that is not ok,
  or a network error) after earlier groups of the same run were classified, the run
  stops there: the error message is appended to the session's errors, the status is
  cleared, and the later groups are never requested, so that what their requests would
  have come to makes no difference. The session's category map stays exactly as it was
  before the run; the categories found for the earlier groups of this run are discarded.
\<close>

theorem failed_run_leaves_map_untouched:
  assumes "apiKey cfg \<noteq> []"
    and "chunks (uniqueNames (filteredRows cfg (rawRows st))) = sent @ grp # unsent"
    and "classify_groups JSON_parse fetch 0 empty_object sent = Inr mapping"
    and "classify_group JSON_parse mapping grp (fetch (length sent)) = Inl e"
  shows "handleClassify JSON_parse fetch cfg st = st\<lparr>status := [], errors := errors st @ [e]\<rparr>
     \<and> categoryMap (handleClassify JSON_parse fetch cfg st) = categoryMap st
     \<and> ((\<forall>i. i \<le> length sent \<longrightarrow> fetch' i = fetch i)
          \<longrightarrow> handleClassify JSON_parse fetch' cfg st = handleClassify JSON_parse fetch cfg st)"
proof -
  have a: "handleClassify JSON_parse fetch cfg st = st\<lparr>status := [], errors := errors st @ [e]\<rparr>"
    using assms by (rule handleClassify_failure)
  have b: "handleClassify JSON_parse fetch' cfg st = st\<lparr>status := [], errors := errors st @ [e]\<rparr>"
    if same: "\<forall>i. i \<le> length sent \<longrightarrow> fetch' i = fetch i"
  proof -
    have "classify_groups JSON_parse fetch' 0 empty_object sent
            = classify_groups JSON_parse fetch 0 empty_object sent"
      using same by (intro classify_groups_cong) simp
    moreover have "fetch' (length sent) = fetch (length sent)"
      using same by simp
    ultimately show ?thesis
      using assms handleClassify_failure [of cfg st sent grp unsent JSON_parse fetch' mapping e]
      by simp
  qed
  from a b show ?thesis
    by simp
qed

theorem failed_run_leaves_map_untouched_witness:
  "apiKey example_settings \<noteq> []
   \<and> chunks (uniqueNames (filteredRows example_settings (rawRows example_session)))
       = [take 40 example_names] @ [''shop 40''] # []
   \<and> classify_groups example_parse example_fetch 0 empty_object [take 40 example_names]
       = Inr \<lparr>own = [''shop 0'' \<mapsto> JStr ''Groceries''], proto = Object_prototype\<rparr>
   \<and> classify_group example_parse
        \<lparr>own = [''shop 0'' \<mapsto> JStr ''Groceries''], proto = Object_prototype\<rparr> [''shop 40'']
        (example_fetch (length [take 40 example_names]))
       = Inl ''OpenAI API error: 500 Internal Server Error''
   \<and> handleClassify example_parse example_fetch example_settings example_session
       = example_session\<lparr>status := [],
           errors := errors example_session @ [''OpenAI API error: 500 Internal Server Error'']\<rparr>
   \<and> categoryMap (handleClassify example_parse example_fetch example_settings example_session)
       = categoryMap example_session"
proof -
  have a: "apiKey example_settings \<noteq> []"
    by (simp add: example_settings_def)
  have b: "chunks (uniqueNames (filteredRows example_settings (rawRows example_session)))
             = [take 40 example_names] @ [''shop 40''] # []"
    unfolding example_unique by (rule example_chunks)
  have c: "classify_groups example_parse example_fetch 0 empty_object [take 40 example_names]
             = Inr \<lparr>own = [''shop 0'' \<mapsto> JStr ''Groceries''], proto = Object_prototype\<rparr>"
    by (simp add: example_first)
  have d: "classify_group example_parse
             \<lparr>own = [''shop 0'' \<mapsto> JStr ''Groceries''], proto = Object_prototype\<rparr> [''shop 40'']
             (example_fetch (length [take 40 example_names]))
           = Inl ''OpenAI API error: 500 Internal Server Error''"
    using example_second
      [of "\<lparr>own = [''shop 0'' \<mapsto> JStr ''Groceries''], proto = Object_prototype\<rparr>"]
    by simp
  from failed_run_leaves_map_untouched [OF a b c d] a b c d show ?thesis
    by blast
qed

section \<open>What the classifier returns is taken as it is\<close>




end
